theory Spec2Isabelle
  imports Complex_Main "HOL-Library.AList"
begin

section \<open>The Ollama chat-completion client: names\<close>

text \<open>
  Shallow embedding of \<^verbatim>\<open>autogen_ext/models/ollama/_ollama_client.py\<close>.

  A Python \<^verbatim>\<open>str\<close> is a \<^typ>\<open>string\<close>: a list of characters, each \<^typ>\<open>char\<close> standing
  for one code point (HOL characters cover the code points below 256). The functions of
  this section only distinguish the ASCII letters, digits, \<^verbatim>\<open>_\<close> and \<^verbatim>\<open>-\<close> from every
  other character, and \<^verbatim>\<open>len\<close> counts characters.

  Every exception of the source is a value of \<open>error\<close>; a function that may raise returns
  \<open>error + 'a\<close>, with \<open>Inl\<close> for the exception. The source raises \<^verbatim>\<open>ValueError\<close> with
  different messages; the constructors tell the messages apart.
\<close>

datatype error =
    InvalidName string
      \<comment> \<open>\<^verbatim>\<open>ValueError("Invalid name: ...")\<close>, both messages of \<^verbatim>\<open>assert_valid_name\<close>\<close>
  | InvalidContentPart
      \<comment> \<open>\<^verbatim>\<open>ValueError("Unknown content type: ...")\<close>\<close>
  | InvalidResponseFormat
      \<comment> \<open>\<^verbatim>\<open>ValueError("response_format must be a Pydantic model class, ...")\<close>\<close>
  | InvalidJsonOutput
      \<comment> \<open>\<^verbatim>\<open>ValueError("json_output must be a boolean or a Pydantic model class, ...")\<close>\<close>
  | ConflictingFormatDirective
      \<comment> \<open>\<^verbatim>\<open>ValueError("response_format and json_output cannot be set ...")\<close> and
          \<^verbatim>\<open>ValueError("json_output and format cannot be set at the same time. ...")\<close>\<close>
  | UnsupportedCapability
      \<comment> \<open>\<^verbatim>\<open>ValueError("Model does not support ...")\<close>: JSON output, vision, function calling\<close>
  | NoToolsProvided
      \<comment> \<open>\<^verbatim>\<open>ValueError("tool_choice 'required' specified but no tools provided")\<close>\<close>
  | UnknownModel
      \<comment> \<open>\<^verbatim>\<open>ValueError("model_info is required when model name is not a valid OpenAI model")\<close>\<close>
  | ExclusiveModelInfo
      \<comment> \<open>\<^verbatim>\<open>ValueError("model_capabilities and model_info are mutually exclusive")\<close>\<close>
  | AssertionError
  | KeyError string
  | TypeError
  | ValidationError
      \<comment> \<open>raised by a pydantic constructor that is given a value of the wrong type\<close>
  | ZeroDivisionError
  | JSONDecodeError
  | CancelledError
  | BackendError string
      \<comment> \<open>any exception raised by the backend transport\<close>

text \<open>The character class \<^verbatim>\<open>[a-zA-Z0-9_-]\<close>.\<close>

definition name_char :: "char \<Rightarrow> bool" where
  "name_char c =
     (let n = (of_char c :: nat)
      in (97 \<le> n \<and> n \<le> 122) \<or> (65 \<le> n \<and> n \<le> 90) \<or> (48 \<le> n \<and> n \<le> 57)
         \<or> c = CHR ''_'' \<or> c = CHR ''-'')"

text \<open>
  \<^verbatim>\<open>re.match(r"^[a-zA-Z0-9_-]+$", name)\<close> is not \<^verbatim>\<open>None\<close>. The match starts at the
  beginning of \<^verbatim>\<open>name\<close>; the greedy \<^verbatim>\<open>+\<close> takes the longest run of class characters,
  which must not be empty; in Python, without \<^verbatim>\<open>re.MULTILINE\<close>, \<^verbatim>\<open>$\<close> matches at the
  end of the string and also just before a newline that is the last character of the
  string. Backtracking to a shorter run cannot help: the character after a shorter run
  is a class character, where \<^verbatim>\<open>$\<close> does not match.
\<close>

definition re_match_name :: "string \<Rightarrow> bool" where
  "re_match_name name =
     (let rest = dropWhile name_char name
      in takeWhile name_char name \<noteq> [] \<and> (rest = [] \<or> rest = [CHR 0x0A]))"

definition assert_valid_name :: "string \<Rightarrow> error + string" where
  "assert_valid_name name =
     (if \<not> re_match_name name then Inl (InvalidName name)
      else if length name > 64 then Inl (InvalidName name)
      else Inr name)"

text \<open>\<^verbatim>\<open>re.sub(r"[^a-zA-Z0-9_-]", "_", name)[:64]\<close>\<close>

definition normalize_name :: "string \<Rightarrow> string" where
  "normalize_name name = take 64 (map (\<lambda>c. if name_char c then c else CHR ''_'') name)"

text \<open>The set of strings matching \<^verbatim>\<open>[A-Za-z0-9_-]{1,64}\<close> in full.\<close>

definition matches_name_pattern :: "string \<Rightarrow> bool" where
  "matches_name_pattern name =
     (name \<noteq> [] \<and> length name \<le> 64 \<and> list_all name_char name)"


section \<open>Values and dictionaries\<close>

text \<open>
  The untyped values that travel through \<^verbatim>\<open>create_args\<close>, \<^verbatim>\<open>json_output\<close> and the
  backend's tool-call arguments. \<open>PModelClass sch\<close> is a class object that is a subclass of
  pydantic's \<^verbatim>\<open>BaseModel\<close>, carrying what its \<^verbatim>\<open>model_json_schema()\<close> returns.
  A \<^verbatim>\<open>dict\<close> is an association list in insertion order: \<^verbatim>\<open>d[k] = v\<close> is
  \<^const>\<open>AList.update\<close> (replace in place, or append), \<^verbatim>\<open>del d[k]\<close> is
  \<^const>\<open>AList.delete\<close>, \<^verbatim>\<open>k in d\<close> and \<^verbatim>\<open>d[k]\<close> read \<^const>\<open>map_of\<close>.
\<close>

datatype pyval =
    PNone
  | PBool bool
  | PInt int
  | PStr string
  | PList "pyval list"
  | PDict "(string \<times> pyval) list"
  | PModelClass "(string \<times> pyval) list"
  | POther string

type_synonym pydict = "(string \<times> pyval) list"

text \<open>\<^verbatim>\<open>d.update(e)\<close>\<close>

definition dict_update :: "pydict \<Rightarrow> pydict \<Rightarrow> pydict" where
  "dict_update d e = fold (\<lambda>(k, v) acc. AList.update k v acc) e d"

text \<open>
  \<^verbatim>\<open>str.lower()\<close> on the code points below 256: the ASCII capitals and the Latin-1
  capitals (U+00C0 to U+00DE, without the multiplication sign U+00D7) move up by 32.
\<close>

definition lower_char :: "char \<Rightarrow> char" where
  "lower_char c =
     (let n = (of_char c :: nat)
      in if (65 \<le> n \<and> n \<le> 90) \<or> (192 \<le> n \<and> n \<le> 222 \<and> n \<noteq> 215)
         then char_of (n + 32) else c)"

definition lower :: "string \<Rightarrow> string" where
  "lower s = map lower_char s"

text \<open>
  What the module takes from outside the source file: the field names of the \<^verbatim>\<open>ollama\<close>
  library's \<^verbatim>\<open>ChatRequest\<close> (read by \<^verbatim>\<open>inspect.getmembers\<close> at import time),
  \<^verbatim>\<open>json.loads\<close> (\<open>None\<close> for \<^verbatim>\<open>JSONDecodeError\<close>), \<^verbatim>\<open>json.dumps\<close>, and the capability
  registry \<^verbatim>\<open>_model_info.get_info\<close> (\<open>None\<close> for \<^verbatim>\<open>KeyError\<close>).
\<close>

record model_info =
  mi_vision :: bool
  mi_function_calling :: bool
  mi_json_output :: bool
  mi_family :: string

record env =
  chat_request_fields :: "string list"
  json_loads :: "string \<Rightarrow> pyval option"
  json_dumps :: "pyval \<Rightarrow> string"
  get_info :: "pyval \<Rightarrow> model_info option"

definition LLM_CONTROL_PARAMS :: "string list" where
  "LLM_CONTROL_PARAMS =
     [''temperature'', ''top_p'', ''top_k'', ''repeat_penalty'', ''frequency_penalty'',
      ''presence_penalty'', ''mirostat'', ''mirostat_eta'', ''mirostat_tau'', ''seed'',
      ''num_ctx'', ''num_predict'', ''num_gpu'', ''stop'', ''tfs_z'', ''typical_p'']"

definition OLLAMA_VALID_CREATE_KWARGS_KEYS :: "env \<Rightarrow> string list" where
  "OLLAMA_VALID_CREATE_KWARGS_KEYS e =
     chat_request_fields e @
     [''model'', ''messages'', ''tools'', ''stream'', ''format'', ''options'', ''keep_alive'',
      ''response_format'']"

text \<open>
  \<^verbatim>\<open>_create_args_from_config\<close>. The deprecation warning and the trace log have no effect
  on the result. The loop state is the pair \<^verbatim>\<open>(create_args, options_dict)\<close>.
\<close>

definition create_args_step ::
  "env \<Rightarrow> string \<times> pyval \<Rightarrow> pydict \<times> pydict \<Rightarrow> pydict \<times> pydict" where
  "create_args_step e kv st =
     (let k_lower = lower (fst kv); v = snd kv
      in if k_lower \<in> set (OLLAMA_VALID_CREATE_KWARGS_KEYS e)
         then (AList.update k_lower v (fst st), snd st)
         else if k_lower \<in> set LLM_CONTROL_PARAMS
         then (fst st, AList.update k_lower v (snd st))
         else st)"

definition create_args_from_config :: "env \<Rightarrow> pydict \<Rightarrow> pydict" where
  "create_args_from_config e config =
     (let options_dict = (case map_of config ''options'' of Some (PDict m) \<Rightarrow> m | _ \<Rightarrow> []);
          st = fold (create_args_step e) config ([], options_dict)
      in if snd st \<noteq> [] then AList.update ''options'' (PDict (snd st)) (fst st)
         else fst st)"

section \<open>Messages\<close>

record image =
  width :: int
  height :: int
  to_base64 :: string

datatype function_call =
  FunctionCall (fc_id: string) (fc_arguments: string) (fc_name: string)

datatype tool_call =
  ToolCall (tc_name: string) (tc_arguments: pyval)

datatype content_part = TextPart string | ImagePart image | OtherPart

datatype user_content = UserText string | UserParts "content_part list"

datatype assistant_content = AssistantText string | AssistantCalls "function_call list"

datatype function_execution_result =
  FunctionExecutionResult (fer_content: string) (fer_call_id: string)

datatype llm_message =
    SystemMessage string
  | UserMessage user_content string
  | AssistantMessage assistant_content string
  | FunctionExecutionResultMessage "function_execution_result list"

text \<open>The backend's \<^verbatim>\<open>Message\<close>; an image is its base64 payload.\<close>

record ollama_message =
  role :: string
  content :: "string option"
  images :: "string list option"
  tool_calls :: "tool_call list option"

definition Message :: "string \<Rightarrow> ollama_message" where
  "Message r = \<lparr>role = r, content = None, images = None, tool_calls = None\<rparr>"

definition type_to_role :: "llm_message \<Rightarrow> string" where
  "type_to_role m =
     (case m of SystemMessage _ \<Rightarrow> ''system'' | UserMessage _ _ \<Rightarrow> ''user''
      | AssistantMessage _ _ \<Rightarrow> ''assistant'' | FunctionExecutionResultMessage _ \<Rightarrow> ''tool'')"

text \<open>
  The loop of \<^verbatim>\<open>user_message_to_ollama\<close> over the parts, with \<^verbatim>\<open>ollama_messages\<close> as
  the accumulator. An image goes to a new message only when the list is empty; otherwise
  it is attached to the last message (\<^verbatim>\<open>ollama_messages[-1]\<close>).
\<close>

fun user_parts_to_ollama :: "ollama_message list \<Rightarrow> content_part list \<Rightarrow> error + ollama_message list" where
  "user_parts_to_ollama ollama_messages [] = Inr ollama_messages"
| "user_parts_to_ollama ollama_messages (TextPart t # parts) =
     user_parts_to_ollama (ollama_messages @ [(Message ''user'')\<lparr>content := Some t\<rparr>]) parts"
| "user_parts_to_ollama ollama_messages (ImagePart i # parts) =
     (if ollama_messages = []
      then user_parts_to_ollama
             (ollama_messages @ [(Message ''user'')\<lparr>images := Some [to_base64 i]\<rparr>]) parts
      else user_parts_to_ollama
             (butlast ollama_messages @
                [(last ollama_messages)
                   \<lparr>images := (case images (last ollama_messages) of
                                 None \<Rightarrow> Some [to_base64 i]
                               | Some imgs \<Rightarrow> Some (imgs @ [to_base64 i]))\<rparr>])
             parts)"
| "user_parts_to_ollama ollama_messages (OtherPart # parts) = Inl InvalidContentPart"

definition user_message_to_ollama :: "user_content \<Rightarrow> string \<Rightarrow> error + ollama_message list" where
  "user_message_to_ollama c source =
     (case assert_valid_name source of
        Inl err \<Rightarrow> Inl err
      | Inr _ \<Rightarrow>
          (case c of
             UserText t \<Rightarrow> Inr [(Message ''user'')\<lparr>content := Some t\<rparr>]
           | UserParts parts \<Rightarrow> user_parts_to_ollama [] parts))"

definition system_message_to_ollama :: "string \<Rightarrow> ollama_message" where
  "system_message_to_ollama c = (Message ''system'')\<lparr>content := Some c\<rparr>"

text \<open>
  \<^verbatim>\<open>func_call_to_ollama\<close>: \<^verbatim>\<open>json.loads\<close> may raise, and the backend's
  \<^verbatim>\<open>ToolCall.Function\<close> accepts a mapping only.
\<close>

definition func_call_to_ollama :: "env \<Rightarrow> function_call \<Rightarrow> error + tool_call" where
  "func_call_to_ollama e fc =
     (case json_loads e (fc_arguments fc) of
        None \<Rightarrow> Inl JSONDecodeError
      | Some (PDict d) \<Rightarrow> Inr (ToolCall (fc_name fc) (PDict d))
      | Some _ \<Rightarrow> Inl ValidationError)"

text \<open>A list comprehension whose element expression may raise: the first error wins.\<close>

fun map_result :: "('a \<Rightarrow> error + 'b) \<Rightarrow> 'a list \<Rightarrow> error + 'b list" where
  "map_result f [] = Inr []"
| "map_result f (x # xs) =
     (case f x of
        Inl err \<Rightarrow> Inl err
      | Inr y \<Rightarrow> (case map_result f xs of Inl err \<Rightarrow> Inl err | Inr ys \<Rightarrow> Inr (y # ys)))"

definition tool_message_to_ollama :: "function_execution_result list \<Rightarrow> ollama_message list" where
  "tool_message_to_ollama results =
     map (\<lambda>x. (Message ''tool'')\<lparr>content := Some (fer_content x)\<rparr>) results"

definition assistant_message_to_ollama ::
  "env \<Rightarrow> assistant_content \<Rightarrow> string \<Rightarrow> error + ollama_message" where
  "assistant_message_to_ollama e c source =
     (case assert_valid_name source of
        Inl err \<Rightarrow> Inl err
      | Inr _ \<Rightarrow>
          (case c of
             AssistantCalls calls \<Rightarrow>
               (case map_result (func_call_to_ollama e) calls of
                  Inl err \<Rightarrow> Inl err
                | Inr tcs \<Rightarrow> Inr ((Message ''assistant'')\<lparr>tool_calls := Some tcs\<rparr>))
           | AssistantText t \<Rightarrow> Inr ((Message ''assistant'')\<lparr>content := Some t\<rparr>)))"

definition to_ollama_type :: "env \<Rightarrow> llm_message \<Rightarrow> error + ollama_message list" where
  "to_ollama_type e m =
     (case m of
        SystemMessage c \<Rightarrow> Inr [system_message_to_ollama c]
      | UserMessage c source \<Rightarrow> user_message_to_ollama c source
      | AssistantMessage c source \<Rightarrow>
          (case assistant_message_to_ollama e c source of
             Inl err \<Rightarrow> Inl err | Inr msg \<Rightarrow> Inr [msg])
      | FunctionExecutionResultMessage results \<Rightarrow> Inr (tool_message_to_ollama results))"

section \<open>Vision tokens\<close>

text \<open>
  \<^verbatim>\<open>calculate_vision_tokens\<close>. The source computes \<^verbatim>\<open>aspect_ratio\<close> and the scaled
  sides in floating point; the model computes them in the rationals, which gives the same
  integers whenever the quotients are exact in a double (as for sides that are powers of
  two). \<^verbatim>\<open>int(x)\<close> truncates towards zero, \<^verbatim>\<open>math.ceil\<close> is the ceiling, and a
  division by a zero height raises.
\<close>

definition py_int :: "rat \<Rightarrow> int" where
  "py_int x = (if 0 \<le> x then \<lfloor>x\<rfloor> else \<lceil>x\<rceil>)"

definition MAX_LONG_EDGE :: int where "MAX_LONG_EDGE = 2048"
definition BASE_TOKEN_COUNT :: int where "BASE_TOKEN_COUNT = 85"
definition TOKENS_PER_TILE :: int where "TOKENS_PER_TILE = 170"
definition MAX_SHORT_EDGE :: int where "MAX_SHORT_EDGE = 768"
definition TILE_SIZE :: int where "TILE_SIZE = 512"

text \<open>Lines 260 to 269: scale down to fit within the long-edge square.\<close>

definition scale_long_edge :: "int \<times> int \<Rightarrow> error + int \<times> int" where
  "scale_long_edge wh =
     (let width = fst wh; height = snd wh
      in if width > MAX_LONG_EDGE \<or> height > MAX_LONG_EDGE
         then (if height = 0 then Inl ZeroDivisionError
               else let aspect_ratio = (of_int width / of_int height :: rat)
                    in if aspect_ratio > 1
                       then Inr (MAX_LONG_EDGE, py_int (of_int MAX_LONG_EDGE / aspect_ratio))
                       else Inr (py_int (of_int MAX_LONG_EDGE * aspect_ratio), MAX_LONG_EDGE))
         else Inr (width, height))"

text \<open>Lines 272 to 281: make the short side \<^verbatim>\<open>MAX_SHORT_EDGE\<close> when both sides exceed it.\<close>

definition scale_short_edge :: "int \<times> int \<Rightarrow> error + int \<times> int" where
  "scale_short_edge wh =
     (let width = fst wh; height = snd wh
      in if height = 0 then Inl ZeroDivisionError
         else let aspect_ratio = (of_int width / of_int height :: rat)
              in if width > MAX_SHORT_EDGE \<and> height > MAX_SHORT_EDGE
                 then (if aspect_ratio > 1
                       then Inr (py_int (of_int MAX_SHORT_EDGE * aspect_ratio), MAX_SHORT_EDGE)
                       else Inr (MAX_SHORT_EDGE, py_int (of_int MAX_SHORT_EDGE / aspect_ratio)))
                 else Inr (width, height))"

definition calculate_vision_tokens :: "image \<Rightarrow> string \<Rightarrow> error + int" where
  "calculate_vision_tokens img detail =
     (if detail = ''low'' then Inr BASE_TOKEN_COUNT
      else case scale_long_edge (width img, height img) of
             Inl err \<Rightarrow> Inl err
           | Inr wh1 \<Rightarrow>
               (case scale_short_edge wh1 of
                  Inl err \<Rightarrow> Inl err
                | Inr wh2 \<Rightarrow>
                    (let tiles_width = \<lceil>(of_int (fst wh2) / of_int TILE_SIZE :: rat)\<rceil>;
                         tiles_height = \<lceil>(of_int (snd wh2) / of_int TILE_SIZE :: rat)\<rceil>;
                         total_tiles = tiles_width * tiles_height
                     in Inr (BASE_TOKEN_COUNT + TOKENS_PER_TILE * total_tiles))))"


section \<open>Tools\<close>

text \<open>
  A \<^verbatim>\<open>ToolSchema\<close> with the keys the converter reads. \<open>p_type\<close> is
  \<^verbatim>\<open>prop_schema.get("type")\<close>; \<open>p_any_of\<close> is the list under \<^verbatim>\<open>"anyOf"\<close> when the key is
  present, each alternative given by its \<^verbatim>\<open>opt.get("type")\<close>.
\<close>

record property_schema =
  p_type :: "string option"
  p_any_of :: "string option list option"
  p_description :: "string option"

record parameters_schema =
  properties :: "(string \<times> property_schema) list"
  required :: "string list option"

record tool_schema =
  name :: string
  description :: "string option"
  parameters :: "parameters_schema option"

text \<open>A tool is a \<^verbatim>\<open>Tool\<close> object (with its \<^verbatim>\<open>.schema\<close>) or a \<^verbatim>\<open>ToolSchema\<close> dict.\<close>

datatype tool = Tool tool_schema | ToolSchema tool_schema

datatype tool_choice = ChoiceTool tool_schema | Choice string

record ollama_property =
  o_type :: string
  o_description :: "string option"

record ollama_tool =
  fn_name :: string
  fn_description :: string
  fn_required :: "string list option"
  fn_properties :: "(string \<times> ollama_property) list option"

definition schema_of :: "tool \<Rightarrow> tool_schema" where
  "schema_of t = (case t of Tool sch \<Rightarrow> sch | ToolSchema sch \<Rightarrow> sch)"

text \<open>The type of a property: \<^verbatim>\<open>"type"\<close> first, then \<^verbatim>\<open>"anyOf"\<close>, then \<^verbatim>\<open>"string"\<close>.\<close>

definition convert_prop_type :: "property_schema \<Rightarrow> string" where
  "convert_prop_type prop_schema =
     (let prop_type =
            (case p_type prop_schema of
               Some t \<Rightarrow> Some t
             | None \<Rightarrow>
                 (case p_any_of prop_schema of
                    None \<Rightarrow> None
                  | Some opts \<Rightarrow>
                      (case find (\<lambda>t. t \<noteq> Some ''null'') opts of
                         None \<Rightarrow> None | Some t \<Rightarrow> t)))
      in case prop_type of
           None \<Rightarrow> ''string''
         | Some t \<Rightarrow> if t = [] then ''string'' else t)"

definition convert_tool :: "tool \<Rightarrow> ollama_tool" where
  "convert_tool t =
     (let tool_schema = schema_of t;
          ollama_properties =
            (case parameters tool_schema of
               None \<Rightarrow> None
             | Some ps \<Rightarrow>
                 Some (fold (\<lambda>(prop_name, prop_schema) acc.
                               AList.update prop_name
                                 \<lparr>o_type = convert_prop_type prop_schema,
                                  o_description = p_description prop_schema\<rparr> acc)
                         (properties ps) []))
      in \<lparr>fn_name = name tool_schema,
          fn_description = (case description tool_schema of Some d \<Rightarrow> d | None \<Rightarrow> []),
          fn_required = (case parameters tool_schema of
                           None \<Rightarrow> None | Some ps \<Rightarrow> required ps),
          fn_properties = ollama_properties\<rparr>)"

definition convert_tools :: "tool list \<Rightarrow> error + ollama_tool list" where
  "convert_tools tools =
     (let result = map convert_tool tools
      in case map_result (\<lambda>tool_param. assert_valid_name (fn_name tool_param)) result of
           Inl err \<Rightarrow> Inl err
         | Inr _ \<Rightarrow> Inr result)"

section \<open>The client and the request builder\<close>

record request_usage =
  prompt_tokens :: int
  completion_tokens :: int

definition add_usage :: "request_usage \<Rightarrow> request_usage \<Rightarrow> request_usage" where
  "add_usage usage1 usage2 =
     \<lparr>prompt_tokens = prompt_tokens usage1 + prompt_tokens usage2,
      completion_tokens = completion_tokens usage1 + completion_tokens usage2\<rparr>"

text \<open>The attributes of \<^verbatim>\<open>BaseOllamaChatCompletionClient\<close> that the calls read or write.\<close>

record client =
  self_model_name :: pyval
  self_model_info :: model_info
  self_resolved_model :: "pyval option"
  self_create_args :: pydict
  self_total_usage :: request_usage
  self_actual_usage :: request_usage
  self_tool_id :: int

text \<open>
  \<^verbatim>\<open>__init__\<close>. \<^verbatim>\<open>_model_info.resolve_model_class\<close> only sets an attribute that no
  call reads; it is left out.
\<close>

definition init ::
  "env \<Rightarrow> pydict \<Rightarrow> model_info option \<Rightarrow> model_info option \<Rightarrow> error + client" where
  "init e create_args model_capabilities model_info =
     (case map_of create_args ''model'' of
        None \<Rightarrow> Inl (KeyError ''model'')
      | Some model \<Rightarrow>
          (case (case (model_capabilities, model_info) of
                   (None, None) \<Rightarrow>
                     (case get_info e model of None \<Rightarrow> Inl UnknownModel | Some i \<Rightarrow> Inr i)
                 | (Some _, Some _) \<Rightarrow> Inl ExclusiveModelInfo
                 | (Some caps, None) \<Rightarrow> Inr (caps\<lparr>mi_family := ''unknown''\<rparr>)
                 | (None, Some i) \<Rightarrow> Inr i) of
             Inl err \<Rightarrow> Inl err
           | Inr info \<Rightarrow>
               (case (if mi_json_output info then Inr False
                      else case map_of create_args ''response_format'' of
                             Some (PDict d) \<Rightarrow>
                               (case map_of d ''type'' of
                                  None \<Rightarrow> Inl (KeyError ''type'')
                                | Some t \<Rightarrow> Inr (t = PStr ''json_object''))
                           | _ \<Rightarrow> Inr False) of
                  Inl err \<Rightarrow> Inl err
                | Inr True \<Rightarrow> Inl UnsupportedCapability
                | Inr False \<Rightarrow>
                    Inr \<lparr>self_model_name = model,
                         self_model_info = info,
                         self_resolved_model = Some model,
                         self_create_args = create_args,
                         self_total_usage = \<lparr>prompt_tokens = 0, completion_tokens = 0\<rparr>,
                         self_actual_usage = \<lparr>prompt_tokens = 0, completion_tokens = 0\<rparr>,
                         self_tool_id = 0\<rparr>)))"

record create_params =
  cp_messages :: "ollama_message list"
  cp_tools :: "ollama_tool list"
  cp_format :: pyval
  cp_create_args :: pydict

text \<open>
  \<^verbatim>\<open>_process_create_args\<close>, lines 528 to 540: the legacy \<^verbatim>\<open>response_format\<close>. The result
  is \<^verbatim>\<open>response_format_value\<close> and the remaining \<^verbatim>\<open>create_args\<close>.
\<close>

definition legacy_response_format :: "pydict \<Rightarrow> error + pyval \<times> pydict" where
  "legacy_response_format create_args =
     (case map_of create_args ''response_format'' of
        None \<Rightarrow> Inr (PNone, create_args)
      | Some (PModelClass sch) \<Rightarrow> Inr (PDict sch, AList.delete ''response_format'' create_args)
      | Some _ \<Rightarrow> Inl InvalidResponseFormat)"

text \<open>Lines 542 to 560: \<^verbatim>\<open>json_output\<close>, given the \<^verbatim>\<open>response_format_value\<close> so far.\<close>

definition json_output_format :: "model_info \<Rightarrow> pyval \<Rightarrow> pyval \<Rightarrow> error + pyval" where
  "json_output_format info json_output response_format_value =
     (if json_output \<noteq> PNone
      then (if \<not> mi_json_output info \<and> json_output = PBool True then Inl UnsupportedCapability
            else if json_output = PBool True then Inr (PStr ''json'')
            else if json_output = PBool False then Inr PNone
            else case json_output of
                   PModelClass sch \<Rightarrow>
                     (if response_format_value \<noteq> PNone then Inl ConflictingFormatDirective
                      else Inr (PDict sch))
                 | _ \<Rightarrow> Inl InvalidJsonOutput)
      else Inr response_format_value)"

text \<open>Lines 562 to 569: the request-level \<^verbatim>\<open>format\<close>.\<close>

definition request_format :: "pyval \<Rightarrow> pyval \<Rightarrow> pydict \<Rightarrow> error + pyval \<times> pydict" where
  "request_format json_output response_format_value create_args =
     (case map_of create_args ''format'' of
        None \<Rightarrow> Inr (response_format_value, create_args)
      | Some f \<Rightarrow>
          (if json_output \<noteq> PNone then Inl ConflictingFormatDirective
           else if response_format_value \<noteq> PNone then Inl AssertionError
           else Inr (f, AList.delete ''format'' create_args)))"

text \<open>Lines 526 to 569 together.\<close>

definition resolve_response_format ::
  "model_info \<Rightarrow> pyval \<Rightarrow> pydict \<Rightarrow> error + pyval \<times> pydict" where
  "resolve_response_format info json_output create_args =
     (case legacy_response_format create_args of
        Inl err \<Rightarrow> Inl err
      | Inr (v1, create_args1) \<Rightarrow>
          (case json_output_format info json_output v1 of
             Inl err \<Rightarrow> Inl err
           | Inr v2 \<Rightarrow> request_format json_output v2 create_args1))"

text \<open>Lines 573 to 577: an image in a user message.\<close>

definition has_image :: "llm_message \<Rightarrow> bool" where
  "has_image m =
     (case m of
        UserMessage (UserParts parts) _ \<Rightarrow>
          list_ex (\<lambda>x. case x of ImagePart _ \<Rightarrow> True | _ \<Rightarrow> False) parts
      | _ \<Rightarrow> False)"

text \<open>Lines 590 to 603: the tools to send, by \<^verbatim>\<open>tool_choice\<close>.\<close>

definition choose_tools :: "tool_choice \<Rightarrow> tool list \<Rightarrow> error + ollama_tool list" where
  "choose_tools tool_choice tools =
     (case tool_choice of
        ChoiceTool sch \<Rightarrow> convert_tools [Tool sch]
      | Choice c \<Rightarrow>
          (if c = ''none'' then Inr []
           else if c = ''required''
           then (case convert_tools tools of
                   Inl err \<Rightarrow> Inl err
                 | Inr converted_tools \<Rightarrow>
                     if length converted_tools = 0 then Inl NoToolsProvided
                     else Inr converted_tools)
           else convert_tools tools))"

definition process_create_args ::
  "env \<Rightarrow> client \<Rightarrow> llm_message list \<Rightarrow> tool list \<Rightarrow> tool_choice \<Rightarrow> pyval \<Rightarrow> pydict
     \<Rightarrow> error + create_params" where
  "process_create_args e self messages tools tool_choice json_output extra_create_args =
     (let create_args =
            create_args_from_config e (dict_update (self_create_args self) extra_create_args);
          info = self_model_info self
      in case resolve_response_format info json_output create_args of
           Inl err \<Rightarrow> Inl err
         | Inr (response_format_value, create_args') \<Rightarrow>
             (if \<not> mi_vision info \<and> list_ex has_image messages then Inl UnsupportedCapability
              else if \<not> mi_json_output info \<and> json_output = PBool True
              then Inl UnsupportedCapability
              else (case map_result (to_ollama_type e) messages of
                      Inl err \<Rightarrow> Inl err
                    | Inr ollama_messages_nested \<Rightarrow>
                        (if \<not> mi_function_calling info \<and> length tools > 0
                         then Inl UnsupportedCapability
                         else (case choose_tools tool_choice tools of
                                 Inl err \<Rightarrow> Inl err
                               | Inr converted_tools \<Rightarrow>
                                   Inr \<lparr>cp_messages = concat ollama_messages_nested,
                                        cp_tools = converted_tools,
                                        cp_format = response_format_value,
                                        cp_create_args = create_args'\<rparr>)))))"


section \<open>Calls\<close>

text \<open>
  The backend's \<^verbatim>\<open>ChatResponse\<close> (one response, or one chunk of a stream), and the
  keyword arguments of \<^verbatim>\<open>self._client.chat\<close>.
\<close>

text \<open>The field \<^verbatim>\<open>done\<close> is \<open>done_flag\<close>: \<^theory_text>\<open>done\<close> is a keyword.\<close>

record chat_response =
  model :: "pyval option"
  done_flag :: "bool option"
  done_reason :: "string option"
  prompt_eval_count :: "int option"
  eval_count :: "int option"
  message :: ollama_message

record chat_request =
  req_messages :: "ollama_message list"
  req_tools :: "ollama_tool list option"
  req_stream :: bool
  req_format :: pyval
  req_kwargs :: pydict

text \<open>
  The backend is a parameter. A call without streaming returns a response or raises. A
  streaming call returns the chunks that \<^verbatim>\<open>anext\<close> delivers, and then how the stream
  ends: \<open>None\<close> for \<^verbatim>\<open>StopAsyncIteration\<close>, \<open>Some err\<close> for an exception raised by the
  next read (a transport failure, or \<^verbatim>\<open>CancelledError\<close> from a linked cancellation token).
\<close>

type_synonym chat_backend = "chat_request \<Rightarrow> error + chat_response"

type_synonym stream_backend = "chat_request \<Rightarrow> error + chat_response list \<times> error option"

text \<open>
  The call expression \<^verbatim>\<open>chat(messages=..., tools=..., stream=..., format=...,
  **create_params.create_args)\<close>: a key of \<^verbatim>\<open>create_args\<close> that repeats one of the explicit
  keywords raises \<^verbatim>\<open>TypeError\<close> before the backend is entered.
\<close>

definition chat_call :: "(chat_request \<Rightarrow> error + 'r) \<Rightarrow> create_params \<Rightarrow> bool \<Rightarrow> error + 'r" where
  "chat_call backend create_params stream =
     (if list_ex (\<lambda>k. map_of (cp_create_args create_params) k \<noteq> None)
           [''messages'', ''tools'', ''stream'', ''format'']
      then Inl TypeError
      else backend
             \<lparr>req_messages = cp_messages create_params,
              req_tools = (if length (cp_tools create_params) > 0
                           then Some (cp_tools create_params) else None),
              req_stream = stream,
              req_format = cp_format create_params,
              req_kwargs = cp_create_args create_params\<rparr>)"

datatype result_content = Text string | Calls "function_call list"

text \<open>\<^verbatim>\<open>CreateResult\<close>; \<^verbatim>\<open>logprobs\<close> is always \<^verbatim>\<open>None\<close> and is left out.\<close>

record create_result =
  finish_reason :: string
  result_content :: result_content
  usage :: request_usage
  cached :: bool
  thought :: "string option"

definition normalize_stop_reason :: "string option \<Rightarrow> string" where
  "normalize_stop_reason stop_reason =
     (case stop_reason of
        None \<Rightarrow> ''unknown''
      | Some r \<Rightarrow>
          (let r' = lower r
           in if r' = ''stop'' then ''stop''
              else if r' = ''end_turn'' then ''stop''
              else if r' = ''tool_calls'' then ''function_calls''
              else ''unknown''))"

text \<open>\<^verbatim>\<open>str\<close> of an integer: its decimal digits, with a sign when negative.\<close>

fun digits :: "nat \<Rightarrow> string" where
  "digits n =
     (if n < 10 then [char_of (48 + n)]
      else digits (n div 10) @ [char_of (48 + n mod 10)])"

declare digits.simps [simp del]

definition str_int :: "int \<Rightarrow> string" where
  "str_int i = (if i < 0 then CHR ''-'' # digits (nat (- i)) else digits (nat i))"

text \<open>The \<^verbatim>\<open>FunctionCall\<close> built from one backend tool call, in both calls.\<close>

definition to_function_call :: "env \<Rightarrow> client \<Rightarrow> tool_call \<Rightarrow> function_call" where
  "to_function_call e self x =
     FunctionCall (str_int (self_tool_id self)) (json_dumps e (tc_arguments x))
       (normalize_name (tc_name x))"

text \<open>\<^verbatim>\<open>count if count is not None else 0\<close>\<close>

definition count_or_zero :: "int option \<Rightarrow> int" where
  "count_or_zero c = (case c of None \<Rightarrow> 0 | Some n \<Rightarrow> n)"

text \<open>
  \<^verbatim>\<open>create\<close>. The result is what the call returns or raises, and the client afterwards.
  Logging and the model-mismatch warning have no effect on either.
\<close>

definition create ::
  "env \<Rightarrow> chat_backend \<Rightarrow> client \<Rightarrow> llm_message list \<Rightarrow> tool list \<Rightarrow> tool_choice \<Rightarrow> pyval
     \<Rightarrow> pydict \<Rightarrow> (error + create_result) \<times> client" where
  "create e backend self messages tools tool_choice json_output extra_create_args =
     (case process_create_args e self messages tools tool_choice json_output extra_create_args of
        Inl err \<Rightarrow> (Inl err, self)
      | Inr create_params \<Rightarrow>
          (case chat_call backend create_params False of
             Inl err \<Rightarrow> (Inl err, self)
           | Inr result \<Rightarrow>
               (let usage = \<lparr>prompt_tokens = count_or_zero (prompt_eval_count result),
                             completion_tokens = count_or_zero (eval_count result)\<rparr>;
                    (thought, content, finish_reason, self1) =
                      (case tool_calls (message result) of
                         Some tcs \<Rightarrow>
                           ((case content (message result) of
                               None \<Rightarrow> None
                             | Some c \<Rightarrow> if c \<noteq> [] then Some c else None),
                            Calls (map (to_function_call e self) tcs),
                            ''tool_calls'',
                            self\<lparr>self_tool_id := self_tool_id self + 1\<rparr>)
                       | None \<Rightarrow>
                           (None,
                            Text (case content (message result) of None \<Rightarrow> [] | Some c \<Rightarrow> c),
                            (case done_reason result of None \<Rightarrow> [] | Some r \<Rightarrow> r),
                            self));
                    response = \<lparr>finish_reason = normalize_stop_reason (Some finish_reason),
                                result_content = content,
                                usage = usage,
                                cached = False,
                                thought = thought\<rparr>
                in (Inr response,
                    self1\<lparr>self_total_usage := add_usage (self_total_usage self1) usage,
                          self_actual_usage := add_usage (self_actual_usage self1) usage\<rparr>))))"

text \<open>
  \<^verbatim>\<open>create_stream\<close>. The variables of the \<^verbatim>\<open>while\<close> loop, and what has been yielded
  so far.
\<close>

record stream_state =
  chunk :: "chat_response option"
  stop_reason :: "string option"
  content_chunks :: "string list"
  full_tool_calls :: "function_call list"
  yielded :: "string list"

definition stream_start :: stream_state where
  "stream_start =
     \<lparr>chunk = None, stop_reason = None, content_chunks = [], full_tool_calls = [],
      yielded = []\<rparr>"

text \<open>One turn of the loop, lines 767 to 796, for the chunk \<open>c\<close> just read.\<close>

definition stream_step :: "env \<Rightarrow> client \<Rightarrow> chat_response \<Rightarrow> stream_state \<Rightarrow> stream_state" where
  "stream_step e self c st =
     (let st1 = st\<lparr>chunk := Some c,
                   stop_reason := (if done_flag c = Some True \<and> stop_reason st = None
                                   then done_reason c else stop_reason st)\<rparr>;
          st2 = (case content (message c) of
                   None \<Rightarrow> st1
                 | Some t \<Rightarrow>
                     st1\<lparr>content_chunks := content_chunks st1 @ [t],
                         yielded := (if length t > 0 then yielded st1 @ [t] else yielded st1)\<rparr>)
      in case tool_calls (message c) of
           None \<Rightarrow> st2
         | Some tcs \<Rightarrow>
             st2\<lparr>full_tool_calls := full_tool_calls st2 @ map (to_function_call e self) tcs\<rparr>)"

text \<open>\<^verbatim>\<open>chunk.eval_count if chunk and chunk.eval_count else 0\<close>, and the same for the prompt.\<close>

definition chunk_count :: "chat_response option \<Rightarrow> (chat_response \<Rightarrow> int option) \<Rightarrow> int" where
  "chunk_count ch field =
     (case ch of
        None \<Rightarrow> 0
      | Some c \<Rightarrow> (case field c of None \<Rightarrow> 0 | Some n \<Rightarrow> if n \<noteq> 0 then n else 0))"

text \<open>Lines 814 to 851: the aggregated result, after the loop.\<close>

definition aggregate :: "stream_state \<Rightarrow> create_result" where
  "aggregate st =
     (let prompt_tokens = chunk_count (chunk st) prompt_eval_count;
          (content, thought, completion_tokens) =
            (if length (content_chunks st) > 0 \<and> length (full_tool_calls st) > 0
             then (Calls (full_tool_calls st), Some (concat (content_chunks st)),
                   chunk_count (chunk st) eval_count)
             else if length (content_chunks st) > 1
             then (Text (concat (content_chunks st)), None, chunk_count (chunk st) eval_count)
             else (Calls (full_tool_calls st), None, 0))
      in \<lparr>finish_reason = normalize_stop_reason (stop_reason st),
          result_content = content,
          usage = \<lparr>prompt_tokens = prompt_tokens, completion_tokens = completion_tokens\<rparr>,
          cached = False,
          thought = thought\<rparr>)"

text \<open>
  What a consumer that reads the generator to its end observes: the text fragments
  yielded, then the final result or the exception.
\<close>

record stream_output =
  partials :: "string list"
  final :: "error + create_result"

definition create_stream ::
  "env \<Rightarrow> stream_backend \<Rightarrow> client \<Rightarrow> llm_message list \<Rightarrow> tool list \<Rightarrow> tool_choice \<Rightarrow> pyval
     \<Rightarrow> pydict \<Rightarrow> stream_output \<times> client" where
  "create_stream e backend self messages tools tool_choice json_output extra_create_args =
     (case process_create_args e self messages tools tool_choice json_output extra_create_args of
        Inl err \<Rightarrow> (\<lparr>partials = [], final = Inl err\<rparr>, self)
      | Inr create_params \<Rightarrow>
          (case chat_call backend create_params True of
             Inl err \<Rightarrow> (\<lparr>partials = [], final = Inl err\<rparr>, self)
           | Inr (chunks, ending) \<Rightarrow>
               (let st = fold (stream_step e self) chunks stream_start
                in case ending of
                     Some err \<Rightarrow> (\<lparr>partials = yielded st, final = Inl err\<rparr>, self)
                   | None \<Rightarrow>
                       (let result = aggregate st
                        in (\<lparr>partials = yielded st, final = Inr result\<rparr>,
                            self\<lparr>self_total_usage :=
                                   add_usage (self_total_usage self) (usage result),
                                 self_actual_usage :=
                                   add_usage (self_actual_usage self) (usage result)\<rparr>)))))"

text \<open>A sequence of calls on one client, each with the backend it meets.\<close>

datatype call =
    CallCreate chat_backend "llm_message list" "tool list" tool_choice pyval pydict
  | CallCreateStream stream_backend "llm_message list" "tool list" tool_choice pyval pydict

text \<open>The result of a call (for a stream, its final result) and the client afterwards.\<close>

fun run_call :: "env \<Rightarrow> client \<Rightarrow> call \<Rightarrow> (error + create_result) \<times> client" where
  "run_call e self (CallCreate backend messages tools tool_choice json_output extra) =
     create e backend self messages tools tool_choice json_output extra"
| "run_call e self (CallCreateStream backend messages tools tool_choice json_output extra) =
     (let r = create_stream e backend self messages tools tool_choice json_output extra
      in (final (fst r), snd r))"

definition run_calls :: "env \<Rightarrow> client \<Rightarrow> call list \<Rightarrow> client" where
  "run_calls e self calls = fold (\<lambda>c s. snd (run_call e s c)) calls self"

section \<open>Notions used to state the properties\<close>

text \<open>
  What a chunk sequence accumulates: the text fragments (every chunk content that is not
  \<^verbatim>\<open>None\<close>, in order) and the backend tool calls, and the count that the last chunk
  reports (zero when the count is absent or when there is no chunk).
\<close>

definition text_fragments :: "chat_response list \<Rightarrow> string list" where
  "text_fragments chunks = List.map_filter (\<lambda>c. content (message c)) chunks"

definition tool_call_fragments :: "chat_response list \<Rightarrow> tool_call list" where
  "tool_call_fragments chunks =
     concat (map (\<lambda>c. case tool_calls (message c) of None \<Rightarrow> [] | Some tcs \<Rightarrow> tcs) chunks)"

definition last_count :: "chat_response list \<Rightarrow> (chat_response \<Rightarrow> int option) \<Rightarrow> int" where
  "last_count chunks field = (if chunks = [] then 0 else count_or_zero (field (last chunks)))"

text \<open>
  Token counts that are not negative, for a response and for every response a backend may
  give during a call.
\<close>

definition nonneg_response :: "chat_response \<Rightarrow> bool" where
  "nonneg_response r =
     (0 \<le> count_or_zero (prompt_eval_count r) \<and> 0 \<le> count_or_zero (eval_count r))"

fun nonneg_backend :: "call \<Rightarrow> bool" where
  "nonneg_backend (CallCreate backend messages tools tool_choice json_output extra) =
     (\<forall>req r. backend req = Inr r \<longrightarrow> nonneg_response r)"
| "nonneg_backend (CallCreateStream backend messages tools tool_choice json_output extra) =
     (\<forall>req chunks ending. backend req = Inr (chunks, ending) \<longrightarrow> list_all nonneg_response chunks)"

definition usage_le :: "request_usage \<Rightarrow> request_usage \<Rightarrow> bool" where
  "usage_le u1 u2 =
     (prompt_tokens u1 \<le> prompt_tokens u2 \<and> completion_tokens u1 \<le> completion_tokens u2)"

section \<open>Concrete inputs\<close>

text \<open>
  An environment with the field names of \<^verbatim>\<open>ChatRequest\<close> in the \<^verbatim>\<open>ollama\<close> library and
  small stand-ins for the JSON functions, a client for a model with every capability,
  backends that answer every request alike, and some responses.
\<close>

definition example_env :: env where
  "example_env =
     \<lparr>chat_request_fields =
        [''model'', ''stream'', ''options'', ''format'', ''keep_alive'', ''messages'', ''tools''],
      json_loads = (\<lambda>s. if s = ''{}'' then Some (PDict []) else None),
      json_dumps = (\<lambda>v. if v = PDict [] then ''{}'' else ''null''),
      get_info = (\<lambda>m. None)\<rparr>"

definition example_info :: model_info where
  "example_info =
     \<lparr>mi_vision = True, mi_function_calling = True, mi_json_output = True,
      mi_family = ''unknown''\<rparr>"

definition example_client :: client where
  "example_client =
     \<lparr>self_model_name = PStr ''llama3'',
      self_model_info = example_info,
      self_resolved_model = Some (PStr ''llama3''),
      self_create_args = [(''model'', PStr ''llama3'')],
      self_total_usage = \<lparr>prompt_tokens = 0, completion_tokens = 0\<rparr>,
      self_actual_usage = \<lparr>prompt_tokens = 0, completion_tokens = 0\<rparr>,
      self_tool_id = 0\<rparr>"

definition constant_chat :: "chat_response \<Rightarrow> chat_backend" where
  "constant_chat resp req = Inr resp"

definition constant_stream :: "chat_response list \<Rightarrow> stream_backend" where
  "constant_stream chunks req = Inr (chunks, None)"

definition hello_chunk :: chat_response where
  "hello_chunk =
     \<lparr>model = Some (PStr ''llama3''), done_flag = Some True, done_reason = Some ''stop'',
      prompt_eval_count = Some 10, eval_count = Some 5,
      message = \<lparr>role = ''assistant'', content = Some ''Hello'', images = None,
                 tool_calls = None\<rparr>\<rparr>"

definition two_calls_response :: chat_response where
  "two_calls_response =
     \<lparr>model = Some (PStr ''llama3''), done_flag = Some True, done_reason = Some ''stop'',
      prompt_eval_count = Some 20, eval_count = Some 3,
      message = \<lparr>role = ''assistant'', content = Some [], images = None,
                 tool_calls = Some [ToolCall ''get weather'' (PDict []),
                                    ToolCall ''get_time'' (PDict [])]\<rparr>\<rparr>"

definition failing_chat :: chat_backend where
  "failing_chat req = Inl (BackendError ''connection refused'')"

definition example_image :: image where
  "example_image = \<lparr>width = 4096, height = 2048, to_base64 = ''QUJD''\<rparr>"

definition newline_name :: string where
  "newline_name = ''abc'' @ [CHR 0x0A]"

definition example_calls :: "call list" where
  "example_calls =
     [CallCreate (constant_chat two_calls_response) [] [] (Choice ''auto'') PNone [],
      CallCreate failing_chat [] [] (Choice ''auto'') PNone [],
      CallCreateStream (constant_stream [hello_chunk, hello_chunk]) [] [] (Choice ''auto'')
        PNone [],
      CallCreate (constant_chat hello_chunk) [] [] (Choice ''required'') PNone []]"



section \<open>Properties of the names\<close>

lemma not_name_char_newline: "\<not> name_char (CHR 0x0A)"
  by (simp add: name_char_def)

text \<open>The strings that the regular expression of \<^const>\<open>assert_valid_name\<close> matches.\<close>

lemma re_match_name_iff:
  "re_match_name n \<longleftrightarrow>
     (n \<noteq> [] \<and> list_all name_char n)
     \<or> (\<exists>s. n = s @ [CHR 0x0A] \<and> s \<noteq> [] \<and> list_all name_char s)"
proof
  assume m: "re_match_name n"
  let ?t = "takeWhile name_char n" and ?d = "dropWhile name_char n"
  have split: "n = ?t @ ?d" by simp
  have allt: "list_all name_char ?t"
    by (simp add: list_all_iff) (meson set_takeWhileD)
  from m have ne: "?t \<noteq> []" and d: "?d = [] \<or> ?d = [CHR 0x0A]"
    by (simp_all add: re_match_name_def Let_def)
  from d show "(n \<noteq> [] \<and> list_all name_char n)
     \<or> (\<exists>s. n = s @ [CHR 0x0A] \<and> s \<noteq> [] \<and> list_all name_char s)"
  proof
    assume "?d = []"
    with split have "n = ?t" by simp
    with ne allt show ?thesis by metis
  next
    assume "?d = [CHR 0x0A]"
    with split have "n = ?t @ [CHR 0x0A]" by simp
    with ne allt show ?thesis by blast
  qed
next
  assume "(n \<noteq> [] \<and> list_all name_char n)
     \<or> (\<exists>s. n = s @ [CHR 0x0A] \<and> s \<noteq> [] \<and> list_all name_char s)"
  then show "re_match_name n"
  proof
    assume a: "n \<noteq> [] \<and> list_all name_char n"
    then have "takeWhile name_char n = n" "dropWhile name_char n = []"
      by (simp_all add: list_all_iff)
    with a show ?thesis by (simp add: re_match_name_def del: takeWhile_eq_all_conv)
  next
    assume "\<exists>s. n = s @ [CHR 0x0A] \<and> s \<noteq> [] \<and> list_all name_char s"
    then obtain s where n: "n = s @ [CHR 0x0A]" and s: "s \<noteq> []" "list_all name_char s"
      by blast
    from s have "takeWhile name_char n = s" "dropWhile name_char n = [CHR 0x0A]"
      unfolding n
      by (simp_all add: list_all_iff not_name_char_newline)
    with s show ?thesis by (simp add: re_match_name_def)
  qed
qed

text \<open>Every string that matches \<^verbatim>\<open>[A-Za-z0-9_-]{1,64}\<close> is returned unchanged.\<close>

lemma assert_valid_name_pattern:
  "matches_name_pattern s \<Longrightarrow> assert_valid_name s = Inr s"
  by (simp add: assert_valid_name_def matches_name_pattern_def re_match_name_iff)

text \<open>
  The names that are accepted: those that match the pattern, and those that match it up
  to one final newline.
\<close>

lemma assert_valid_name_accepts:
  "assert_valid_name n = Inr r \<longleftrightarrow>
     r = n \<and> length n \<le> 64 \<and>
     ((n \<noteq> [] \<and> list_all name_char n)
      \<or> (\<exists>s. n = s @ [CHR 0x0A] \<and> s \<noteq> [] \<and> list_all name_char s))"
  by (auto simp add: assert_valid_name_def re_match_name_iff)

lemma assert_valid_name_result:
  "assert_valid_name n = Inr n \<or> assert_valid_name n = Inl (InvalidName n)"
  by (simp add: assert_valid_name_def)

lemma assert_valid_name_user: "assert_valid_name ''user'' = Inr ''user''"
  by (simp add: assert_valid_name_def re_match_name_def name_char_def)

text \<open>
  Claim C7. \<^verbatim>\<open>assert_valid_name\<close> should return exactly the strings that match
  \<^verbatim>\<open>[A-Za-z0-9_-]{1,64}\<close> and fail on every other string. The name \<^verbatim>\<open>"abc\n"\<close> has a
  character outside the class, so it does not match the pattern, and yet it is returned
  unchanged: \<^verbatim>\<open>$\<close> matches before the final newline.
\<close>

theorem assert_valid_name_trailing_newline:
  "\<not> matches_name_pattern newline_name \<and> assert_valid_name newline_name = Inr newline_name"
  by (simp add: newline_name_def matches_name_pattern_def assert_valid_name_def
        re_match_name_def name_char_def)

text \<open>\<^verbatim>\<open>normalize_name\<close> is idempotent, and the identity on the strings of the pattern.\<close>

lemma normalize_name_idem: "normalize_name (normalize_name s) = normalize_name s"
proof -
  let ?f = "\<lambda>c. if name_char c then c else CHR ''_''"
  have "map ?f (map ?f s) = map ?f s"
    by (induction s) (simp_all add: name_char_def)
  then have "map ?f (take 64 (map ?f s)) = take 64 (map ?f s)"
    by (simp add: take_map[symmetric] del: map_map)
  then show ?thesis by (simp add: normalize_name_def)
qed

lemma normalize_name_id: "matches_name_pattern s \<Longrightarrow> normalize_name s = s"
proof -
  assume a: "matches_name_pattern s"
  then have "map (\<lambda>c. if name_char c then c else CHR ''_'') s = s"
    by (simp add: matches_name_pattern_def list_all_iff map_idI)
  with a show ?thesis by (simp add: normalize_name_def matches_name_pattern_def)
qed


section \<open>Properties of the message translation\<close>

text \<open>
  Claim C2, as stated: a user message with the parts \<^verbatim>\<open>"hello"\<close> and an image yields two
  backend messages, the text and then the image alone. It does not: the list of messages
  is not empty when the image is reached, so the image is attached to the text message.
\<close>

theorem user_text_then_image_counterexample:
  "user_message_to_ollama (UserParts [TextPart ''hello'', ImagePart example_image]) ''user''
   \<noteq> Inr [\<lparr>role = ''user'', content = Some ''hello'', images = None, tool_calls = None\<rparr>,
          \<lparr>role = ''user'', content = None, images = Some [to_base64 example_image],
           tool_calls = None\<rparr>]"
  by (simp add: user_message_to_ollama_def Message_def assert_valid_name_user)

text \<open>
  Claim C2, amended: for a valid source, a user message with the parts \<^verbatim>\<open>"hello"\<close> and the
  image \<open>A\<close> yields exactly one backend message, with role \<^verbatim>\<open>user\<close>, content
  \<^verbatim>\<open>"hello"\<close> and the image list \<open>[A]\<close>.
\<close>

theorem user_text_then_image:
  assumes "assert_valid_name source = Inr source"
  shows "user_message_to_ollama (UserParts [TextPart ''hello'', ImagePart A]) source =
           Inr [\<lparr>role = ''user'', content = Some ''hello'', images = Some [to_base64 A],
                 tool_calls = None\<rparr>]"
  using assms by (simp add: user_message_to_ollama_def Message_def)

theorem user_text_then_image_witness:
  "assert_valid_name ''user'' = Inr ''user''
   \<and> user_message_to_ollama (UserParts [TextPart ''hello'', ImagePart example_image]) ''user''
     = Inr [\<lparr>role = ''user'', content = Some ''hello'', images = Some [''QUJD''],
             tool_calls = None\<rparr>]"
  using user_text_then_image[OF assert_valid_name_user, of example_image]
  by (simp add: assert_valid_name_user example_image_def)

section \<open>Properties of the vision-token estimate\<close>

lemma example_image_scaling:
  "scale_long_edge (4096, 2048) = Inr (2048, 1024)
   \<and> scale_short_edge (2048, 1024) = Inr (1536, 768)"
  by (simp add: scale_long_edge_def scale_short_edge_def py_int_def MAX_LONG_EDGE_def
        MAX_SHORT_EDGE_def Let_def)

text \<open>
  Claim C3, as stated: the estimate for a 4096 by 2048 image with the default detail is
  1445 tokens. It is not.
\<close>

theorem vision_tokens_4096_2048_counterexample:
  "calculate_vision_tokens example_image ''auto'' \<noteq> Inr 1445"
  by code_simp

text \<open>
  Claim C3, amended: the estimate for a 4096 by 2048 image with the default detail is
  1105 tokens. The long edge is scaled to 2048 by 1024; both sides then exceed 768, so the
  short side is scaled to 768, which gives 1536 by 768, that is 3 by 2 tiles, and
  85 + 170 * 6 tokens.
\<close>

theorem vision_tokens_4096_2048:
  "calculate_vision_tokens example_image ''auto'' = Inr 1105"
  by code_simp

section \<open>Properties of the streaming call\<close>

lemma fold_stream_step_content:
  "content_chunks (fold (stream_step e self) chunks st) = content_chunks st @ text_fragments chunks"
  by (induction chunks arbitrary: st)
     (auto simp: text_fragments_def stream_step_def Let_def split: option.splits)

lemma fold_stream_step_calls:
  "full_tool_calls (fold (stream_step e self) chunks st) =
     full_tool_calls st @ map (to_function_call e self) (tool_call_fragments chunks)"
  by (induction chunks arbitrary: st)
     (auto simp: tool_call_fragments_def stream_step_def Let_def split: option.splits)

lemma stream_step_chunk: "chunk (stream_step e self c st) = Some c"
  by (simp add: stream_step_def Let_def split: option.splits)

lemma fold_stream_step_chunk:
  "chunk (fold (stream_step e self) chunks st) = (if chunks = [] then chunk st else Some (last chunks))"
  by (induction chunks arbitrary: st) (auto simp: stream_step_chunk)

lemma chunk_count_last:
  "chunk_count (chunk (fold (stream_step e self) chunks stream_start)) field = last_count chunks field"
  by (simp add: fold_stream_step_chunk chunk_count_def last_count_def count_or_zero_def stream_start_def
           split: option.splits)

lemma create_stream_normal:
  assumes "process_create_args e self messages tools tool_choice json_output extra = Inr params"
      and "chat_call backend params True = Inr (chunks, None)"
  shows "create_stream e backend self messages tools tool_choice json_output extra =
           (let st = fold (stream_step e self) chunks stream_start; result = aggregate st
            in (\<lparr>partials = yielded st, final = Inr result\<rparr>,
                self\<lparr>self_total_usage := add_usage (self_total_usage self) (usage result),
                     self_actual_usage := add_usage (self_actual_usage self) (usage result)\<rparr>))"
  using assms by (simp add: create_stream_def Let_def)

lemma aggregate_fold:
  "aggregate (fold (stream_step e self) chunks stream_start) =
     (let texts = text_fragments chunks;
          calls = map (to_function_call e self) (tool_call_fragments chunks);
          st = fold (stream_step e self) chunks stream_start
      in \<lparr>finish_reason = normalize_stop_reason (stop_reason st),
          result_content = (if texts \<noteq> [] \<and> calls \<noteq> [] then Calls calls
                            else if length texts > 1 then Text (concat texts) else Calls calls),
          usage = \<lparr>prompt_tokens = last_count chunks prompt_eval_count,
                   completion_tokens =
                     (if (texts \<noteq> [] \<and> calls \<noteq> []) \<or> length texts > 1
                      then last_count chunks eval_count else 0)\<rparr>,
          cached = False,
          thought = (if texts \<noteq> [] \<and> calls \<noteq> [] then Some (concat texts) else None)\<rparr>)"
  by (simp add: aggregate_def Let_def fold_stream_step_content fold_stream_step_calls chunk_count_last)
     (simp add: stream_start_def)

lemma example_params:
  "process_create_args example_env example_client [] [] (Choice ''auto'') PNone [] =
     Inr \<lparr>cp_messages = [], cp_tools = [], cp_format = PNone,
          cp_create_args = [(''model'', PStr ''llama3'')]\<rparr>"
  by code_simp


lemma example_chat_call:
  "chat_call (constant_chat resp)
     \<lparr>cp_messages = [], cp_tools = [], cp_format = PNone,
      cp_create_args = [(''model'', PStr ''llama3'')]\<rparr> False = Inr resp"
  by (simp add: chat_call_def constant_chat_def)






section \<open>Properties of the tool-call identifiers\<close>

lemma create_stream_tool_id:
  "self_tool_id (snd (create_stream e backend self messages tools tool_choice json_output extra))
     = self_tool_id self"
  by (simp add: create_stream_def Let_def split: sum.splits option.splits prod.splits)

lemma create_stream_final_calls:
  assumes "final (fst (create_stream e backend self messages tools tool_choice json_output extra))
             = Inr r"
      and "result_content r = Calls calls" and "fc \<in> set calls"
  shows "fc_id fc = str_int (self_tool_id self)"
proof -
  from assms(1) obtain params chunks where
    p: "process_create_args e self messages tools tool_choice json_output extra = Inr params"
    and c: "chat_call backend params True = Inr (chunks, None)"
    by (auto simp: create_stream_def Let_def split: sum.splits option.splits prod.splits)
  from assms(1) have "r = aggregate (fold (stream_step e self) chunks stream_start)"
    by (simp add: create_stream_normal[OF p c] Let_def)
  with assms(2) have "calls = map (to_function_call e self) (tool_call_fragments chunks)"
    by (simp add: aggregate_fold Let_def split: if_splits)
  with assms(3) show ?thesis by (auto simp: to_function_call_def)
qed

lemma create_success:
  assumes "process_create_args e self messages tools tool_choice json_output extra = Inr params"
      and "chat_call backend params False = Inr result"
  shows "create e backend self messages tools tool_choice json_output extra =
     (let usage = \<lparr>prompt_tokens = count_or_zero (prompt_eval_count result),
                   completion_tokens = count_or_zero (eval_count result)\<rparr>
      in case tool_calls (message result) of
           Some tcs \<Rightarrow>
             (Inr \<lparr>finish_reason = ''function_calls'',
                   result_content = Calls (map (to_function_call e self) tcs),
                   usage = usage, cached = False,
                   thought = (case content (message result) of
                                None \<Rightarrow> None | Some c \<Rightarrow> if c \<noteq> [] then Some c else None)\<rparr>,
              self\<lparr>self_tool_id := self_tool_id self + 1,
                   self_total_usage := add_usage (self_total_usage self) usage,
                   self_actual_usage := add_usage (self_actual_usage self) usage\<rparr>)
         | None \<Rightarrow>
             (Inr \<lparr>finish_reason =
                     normalize_stop_reason
                       (Some (case done_reason result of None \<Rightarrow> [] | Some r \<Rightarrow> r)),
                   result_content =
                     Text (case content (message result) of None \<Rightarrow> [] | Some c \<Rightarrow> c),
                   usage = usage, cached = False, thought = None\<rparr>,
              self\<lparr>self_total_usage := add_usage (self_total_usage self) usage,
                   self_actual_usage := add_usage (self_actual_usage self) usage\<rparr>))"
proof -
  have n: "normalize_stop_reason (Some ''tool_calls'') = ''function_calls''"
    by code_simp
  show ?thesis using assms
    by (simp add: create_def Let_def n split: option.splits)
qed

text \<open>
  Claim C9. All tool calls made from one backend response carry the same identifier, the
  counter of the client as a string. A successful \<^verbatim>\<open>create\<close> adds one to the counter
  when the response has tool calls, whatever their number, and leaves it otherwise;
  \<^verbatim>\<open>create_stream\<close> never changes the counter, and every tool call of its final result
  carries the counter's value at the start of the call.
\<close>

theorem tool_call_identifiers:
  assumes "process_create_args e self messages tools tool_choice json_output extra = Inr params"
      and "chat_call backend params False = Inr result"
  shows "(\<exists>r self'.
            create e backend self messages tools tool_choice json_output extra = (Inr r, self')
            \<and> (case tool_calls (message result) of
                  Some tcs \<Rightarrow>
                    result_content r = Calls (map (to_function_call e self) tcs)
                    \<and> (\<forall>fc \<in> set (map (to_function_call e self) tcs).
                          fc_id fc = str_int (self_tool_id self))
                    \<and> self_tool_id self' = self_tool_id self + 1
                | None \<Rightarrow> self_tool_id self' = self_tool_id self))
       \<and> self_tool_id
            (snd (create_stream e sbackend self messages tools tool_choice json_output extra))
           = self_tool_id self
       \<and> (\<forall>r calls fc.
            final (fst (create_stream e sbackend self messages tools tool_choice json_output extra))
              = Inr r
            \<and> result_content r = Calls calls \<and> fc \<in> set calls
            \<longrightarrow> fc_id fc = str_int (self_tool_id self))"
proof (intro conjI)
  show "\<exists>r self'.
            create e backend self messages tools tool_choice json_output extra = (Inr r, self')
            \<and> (case tool_calls (message result) of
                  Some tcs \<Rightarrow>
                    result_content r = Calls (map (to_function_call e self) tcs)
                    \<and> (\<forall>fc \<in> set (map (to_function_call e self) tcs).
                          fc_id fc = str_int (self_tool_id self))
                    \<and> self_tool_id self' = self_tool_id self + 1
                | None \<Rightarrow> self_tool_id self' = self_tool_id self)"
    by (cases "tool_calls (message result)")
       (simp_all add: create_success[OF assms] Let_def to_function_call_def)
next
  show "self_tool_id
          (snd (create_stream e sbackend self messages tools tool_choice json_output extra))
         = self_tool_id self"
    by (rule create_stream_tool_id)
next
  show "\<forall>r calls fc.
            final (fst (create_stream e sbackend self messages tools tool_choice json_output extra))
              = Inr r
            \<and> result_content r = Calls calls \<and> fc \<in> set calls
            \<longrightarrow> fc_id fc = str_int (self_tool_id self)"
    using create_stream_final_calls by blast
qed

theorem tool_call_identifiers_witness:
  "create example_env (constant_chat two_calls_response) example_client [] [] (Choice ''auto'')
     PNone []
   = (Inr \<lparr>finish_reason = ''function_calls'',
           result_content = Calls [FunctionCall ''0'' ''{}'' ''get_weather'',
                                   FunctionCall ''0'' ''{}'' ''get_time''],
           usage = \<lparr>prompt_tokens = 20, completion_tokens = 3\<rparr>, cached = False,
           thought = None\<rparr>,
      example_client\<lparr>self_tool_id := 1,
                     self_total_usage := \<lparr>prompt_tokens = 20, completion_tokens = 3\<rparr>,
                     self_actual_usage := \<lparr>prompt_tokens = 20, completion_tokens = 3\<rparr>\<rparr>)
   \<and> create_stream example_env (constant_stream [two_calls_response, two_calls_response])
       example_client [] [] (Choice ''auto'') PNone []
   = (\<lparr>partials = [],
       final = Inr \<lparr>finish_reason = ''stop'',
                    result_content = Calls [FunctionCall ''0'' ''{}'' ''get_weather'',
                                            FunctionCall ''0'' ''{}'' ''get_time'',
                                            FunctionCall ''0'' ''{}'' ''get_weather'',
                                            FunctionCall ''0'' ''{}'' ''get_time''],
                    usage = \<lparr>prompt_tokens = 20, completion_tokens = 3\<rparr>, cached = False,
                    thought = Some []\<rparr>\<rparr>,
      example_client\<lparr>self_total_usage := \<lparr>prompt_tokens = 20, completion_tokens = 3\<rparr>,
                     self_actual_usage := \<lparr>prompt_tokens = 20, completion_tokens = 3\<rparr>\<rparr>)"
proof -
  have a: "create example_env (constant_chat two_calls_response) example_client [] []
             (Choice ''auto'') PNone []
   = (Inr \<lparr>finish_reason = ''function_calls'',
           result_content = Calls [FunctionCall ''0'' ''{}'' ''get_weather'',
                                   FunctionCall ''0'' ''{}'' ''get_time''],
           usage = \<lparr>prompt_tokens = 20, completion_tokens = 3\<rparr>, cached = False,
           thought = None\<rparr>,
      example_client\<lparr>self_tool_id := 1,
                     self_total_usage := \<lparr>prompt_tokens = 20, completion_tokens = 3\<rparr>,
                     self_actual_usage := \<lparr>prompt_tokens = 20, completion_tokens = 3\<rparr>\<rparr>)"
    by code_simp
  have b: "create_stream example_env (constant_stream [two_calls_response, two_calls_response])
       example_client [] [] (Choice ''auto'') PNone []
   = (\<lparr>partials = [],
       final = Inr \<lparr>finish_reason = ''stop'',
                    result_content = Calls [FunctionCall ''0'' ''{}'' ''get_weather'',
                                            FunctionCall ''0'' ''{}'' ''get_time'',
                                            FunctionCall ''0'' ''{}'' ''get_weather'',
                                            FunctionCall ''0'' ''{}'' ''get_time''],
                    usage = \<lparr>prompt_tokens = 20, completion_tokens = 3\<rparr>, cached = False,
                    thought = Some []\<rparr>\<rparr>,
      example_client\<lparr>self_total_usage := \<lparr>prompt_tokens = 20, completion_tokens = 3\<rparr>,
                     self_actual_usage := \<lparr>prompt_tokens = 20, completion_tokens = 3\<rparr>\<rparr>)"
    by code_simp
  from tool_call_identifiers[OF example_params example_chat_call,
         of two_calls_response "constant_stream [two_calls_response, two_calls_response]"] a b
  show ?thesis by simp
qed

section \<open>Properties of the usage totals\<close>

text \<open>What one call does to the two totals.\<close>

lemma run_call_usage:
  "run_call e s c = (r, s') \<Longrightarrow>
     (case r of
        Inl err \<Rightarrow> self_total_usage s' = self_total_usage s
                   \<and> self_actual_usage s' = self_actual_usage s
      | Inr res \<Rightarrow> self_total_usage s' = add_usage (self_total_usage s) (usage res)
                   \<and> self_actual_usage s' = add_usage (self_actual_usage s) (usage res))"
proof (cases c)
  case (CallCreate backend messages tools tool_choice json_output extra)
  assume "run_call e s c = (r, s')"
  with CallCreate show ?thesis
    by (auto simp: create_def Let_def split: sum.splits option.splits)
next
  case (CallCreateStream backend messages tools tool_choice json_output extra)
  assume "run_call e s c = (r, s')"
  with CallCreateStream show ?thesis
    by (auto simp: create_stream_def Let_def split: sum.splits option.splits prod.splits)
qed

lemma last_count_nonneg:
  "list_all nonneg_response chunks \<Longrightarrow>
     0 \<le> last_count chunks prompt_eval_count \<and> 0 \<le> last_count chunks eval_count"
  by (cases "chunks = []") (auto simp: last_count_def list_all_iff nonneg_response_def)

lemma run_call_nonneg:
  assumes "nonneg_backend c" and "run_call e s c = (Inr res, s')"
  shows "0 \<le> prompt_tokens (usage res) \<and> 0 \<le> completion_tokens (usage res)"
proof (cases c)
  case (CallCreate backend messages tools tool_choice json_output extra)
  with assms(2) obtain params result where
    p: "process_create_args e s messages tools tool_choice json_output extra = Inr params"
    and b: "chat_call backend params False = Inr result"
    by (auto simp: create_def Let_def split: sum.splits)
  from b have "\<exists>req. backend req = Inr result"
    by (auto simp: chat_call_def split: if_splits)
  with assms(1) CallCreate have "nonneg_response result" by auto
  with assms(2) CallCreate show ?thesis
    by (auto simp: create_success[OF p b] Let_def nonneg_response_def split: option.splits)
next
  case (CallCreateStream backend messages tools tool_choice json_output extra)
  with assms(2) obtain params chunks where
    p: "process_create_args e s messages tools tool_choice json_output extra = Inr params"
    and b: "chat_call backend params True = Inr (chunks, None)"
    by (auto simp: create_stream_def Let_def split: sum.splits option.splits prod.splits)
  from b have "\<exists>req. backend req = Inr (chunks, None)"
    by (auto simp: chat_call_def split: if_splits)
  with assms(1) CallCreateStream have "list_all nonneg_response chunks" by auto
  from last_count_nonneg[OF this] assms(2) CallCreateStream show ?thesis
    by (auto simp: create_stream_normal[OF p b] Let_def aggregate_fold)
qed

lemma run_calls_snoc:
  "run_calls e s (calls @ [c]) = snd (run_call e (run_calls e s calls) c)"
  by (simp add: run_calls_def)

lemma run_calls_take_Suc:
  "n < length calls \<Longrightarrow>
     run_calls e s (take (Suc n) calls) = snd (run_call e (run_calls e s (take n calls)) (calls ! n))"
  by (simp add: take_Suc_conv_app_nth run_calls_snoc)

lemma run_calls_append:
  "run_calls e s (xs @ ys) = run_calls e (run_calls e s xs) ys"
  by (simp add: run_calls_def)

lemma run_calls_equal:
  "self_total_usage s = self_actual_usage s \<Longrightarrow>
     self_total_usage (run_calls e s calls) = self_actual_usage (run_calls e s calls)"
proof (induction calls rule: rev_induct)
  case Nil
  then show ?case by (simp add: run_calls_def)
next
  case (snoc c calls)
  obtain r s' where rc: "run_call e (run_calls e s calls) c = (r, s')"
    by (cases "run_call e (run_calls e s calls) c")
  from run_call_usage[OF rc] snoc show ?case
    by (cases r) (simp_all add: run_calls_snoc rc)
qed

lemma init_usage:
  "init e create_args model_capabilities model_info = Inr s \<Longrightarrow>
     self_total_usage s = \<lparr>prompt_tokens = 0, completion_tokens = 0\<rparr>
     \<and> self_actual_usage s = \<lparr>prompt_tokens = 0, completion_tokens = 0\<rparr>
     \<and> self_tool_id s = 0"
  by (auto simp: init_def split: option.splits sum.splits bool.splits if_splits)

lemma usage_le_refl: "usage_le u u"
  by (simp add: usage_le_def)

lemma usage_le_trans: "usage_le u v \<Longrightarrow> usage_le v w \<Longrightarrow> usage_le u w"
  by (auto simp: usage_le_def)

lemma run_call_mono:
  assumes "nonneg_backend c"
  shows "usage_le (self_total_usage s) (self_total_usage (snd (run_call e s c)))"
proof -
  obtain r s' where rc: "run_call e s c = (r, s')" by (cases "run_call e s c")
  from run_call_usage[OF rc] run_call_nonneg[OF assms] rc show ?thesis
    by (cases r) (auto simp: usage_le_def add_usage_def)
qed

lemma run_calls_mono:
  "\<forall>c \<in> set calls. nonneg_backend c \<Longrightarrow>
     usage_le (self_total_usage s) (self_total_usage (run_calls e s calls))"
proof (induction calls rule: rev_induct)
  case Nil
  then show ?case by (simp add: run_calls_def usage_le_refl)
next
  case (snoc c calls)
  then have "usage_le (self_total_usage s) (self_total_usage (run_calls e s calls))"
    and "nonneg_backend c" by simp_all
  with run_call_mono[of c "run_calls e s calls" e] show ?case
    by (auto simp: run_calls_snoc intro: usage_le_trans)
qed

lemma run_calls_prefix_mono:
  assumes "\<forall>c \<in> set calls. nonneg_backend c" and "m \<le> n"
  shows "usage_le (self_total_usage (run_calls e s (take m calls)))
           (self_total_usage (run_calls e s (take n calls)))"
proof -
  have "take n calls = take m calls @ drop m (take n calls)"
    using assms(2) by (metis append_take_drop_id min.absorb1 take_take)
  moreover have "\<forall>c \<in> set (drop m (take n calls)). nonneg_backend c"
    using assms(1) by (meson in_set_dropD in_set_takeD)
  ultimately show ?thesis
    using run_calls_mono[of "drop m (take n calls)" "run_calls e s (take m calls)" e]
    by (metis run_calls_append)
qed

lemma init_example:
  "init example_env [(''model'', PStr ''llama3'')] None (Some example_info) = Inr example_client"
  by code_simp

lemma example_calls_nonneg: "\<forall>c \<in> set example_calls. nonneg_backend c"
  by (simp add: example_calls_def constant_chat_def constant_stream_def failing_chat_def
      nonneg_response_def count_or_zero_def two_calls_response_def hello_chunk_def)

text \<open>
  Claim C6. On a client that \<^verbatim>\<open>__init__\<close> has built, both totals start at (0, 0). After
  every prefix of any sequence of \<^verbatim>\<open>create\<close> and \<^verbatim>\<open>create_stream\<close> calls the two totals
  are equal. A call that fails leaves both unchanged, and a call that succeeds adds the
  usage of its result to both. When the counts that the backend reports are never
  negative, each component of each total never decreases along the sequence.
\<close>

theorem usage_totals:
  assumes "init e create_args model_capabilities model_info = Inr s0"
  shows "self_total_usage s0 = \<lparr>prompt_tokens = 0, completion_tokens = 0\<rparr>
       \<and> self_actual_usage s0 = \<lparr>prompt_tokens = 0, completion_tokens = 0\<rparr>
       \<and> (\<forall>n \<le> length calls.
             self_total_usage (run_calls e s0 (take n calls))
               = self_actual_usage (run_calls e s0 (take n calls)))
       \<and> (\<forall>n < length calls. \<forall>r s'.
             run_call e (run_calls e s0 (take n calls)) (calls ! n) = (r, s') \<longrightarrow>
               run_calls e s0 (take (Suc n) calls) = s'
               \<and> (case r of
                     Inl err \<Rightarrow>
                       self_total_usage s' = self_total_usage (run_calls e s0 (take n calls))
                       \<and> self_actual_usage s' = self_actual_usage (run_calls e s0 (take n calls))
                   | Inr res \<Rightarrow>
                       self_total_usage s'
                         = add_usage (self_total_usage (run_calls e s0 (take n calls))) (usage res)
                       \<and> self_actual_usage s'
                         = add_usage (self_actual_usage (run_calls e s0 (take n calls)))
                             (usage res)))
       \<and> ((\<forall>c \<in> set calls. nonneg_backend c) \<longrightarrow>
            (\<forall>m n. m \<le> n \<longrightarrow>
               usage_le (self_total_usage (run_calls e s0 (take m calls)))
                 (self_total_usage (run_calls e s0 (take n calls)))
               \<and> usage_le (self_actual_usage (run_calls e s0 (take m calls)))
                   (self_actual_usage (run_calls e s0 (take n calls)))))"
proof -
  from init_usage[OF assms]
  have z: "self_total_usage s0 = \<lparr>prompt_tokens = 0, completion_tokens = 0\<rparr>"
    and z': "self_actual_usage s0 = \<lparr>prompt_tokens = 0, completion_tokens = 0\<rparr>"
    by simp_all
  then have eq: "self_total_usage s0 = self_actual_usage s0" by simp
  have same: "self_total_usage (run_calls e s0 xs) = self_actual_usage (run_calls e s0 xs)"
    for xs by (rule run_calls_equal[OF eq])
  have step: "run_calls e s0 (take (Suc n) calls) = s'
       \<and> (case r of
             Inl err \<Rightarrow>
               self_total_usage s' = self_total_usage (run_calls e s0 (take n calls))
               \<and> self_actual_usage s' = self_actual_usage (run_calls e s0 (take n calls))
           | Inr res \<Rightarrow>
               self_total_usage s'
                 = add_usage (self_total_usage (run_calls e s0 (take n calls))) (usage res)
               \<and> self_actual_usage s'
                 = add_usage (self_actual_usage (run_calls e s0 (take n calls))) (usage res))"
    if n: "n < length calls"
      and rc: "run_call e (run_calls e s0 (take n calls)) (calls ! n) = (r, s')"
    for n r s'
    using run_call_usage[OF rc] by (simp add: run_calls_take_Suc[OF n] rc)
  have mono: "usage_le (self_total_usage (run_calls e s0 (take m calls)))
                 (self_total_usage (run_calls e s0 (take n calls)))
               \<and> usage_le (self_actual_usage (run_calls e s0 (take m calls)))
                   (self_actual_usage (run_calls e s0 (take n calls)))"
    if nn: "\<forall>c \<in> set calls. nonneg_backend c" and mn: "m \<le> n" for m n
    using run_calls_prefix_mono[OF nn mn, of e s0] by (simp add: same[symmetric])
  from z z' same step mono show ?thesis by blast
qed

theorem usage_totals_witness:
  "init example_env [(''model'', PStr ''llama3'')] None (Some example_info) = Inr example_client
   \<and> run_calls example_env example_client example_calls
     = example_client\<lparr>self_tool_id := 1,
                      self_total_usage := \<lparr>prompt_tokens = 30, completion_tokens = 8\<rparr>,
                      self_actual_usage := \<lparr>prompt_tokens = 30, completion_tokens = 8\<rparr>\<rparr>
   \<and> usage_le (self_total_usage (run_calls example_env example_client (take 1 example_calls)))
       (self_total_usage (run_calls example_env example_client (take 4 example_calls)))"
proof -
  have r: "run_calls example_env example_client example_calls
     = example_client\<lparr>self_tool_id := 1,
                      self_total_usage := \<lparr>prompt_tokens = 30, completion_tokens = 8\<rparr>,
                      self_actual_usage := \<lparr>prompt_tokens = 30, completion_tokens = 8\<rparr>\<rparr>"
    by code_simp
  have le: "(1::nat) \<le> 4" by simp
  from usage_totals[OF init_example, of example_calls] example_calls_nonneg le
  have "usage_le (self_total_usage (run_calls example_env example_client (take 1 example_calls)))
       (self_total_usage (run_calls example_env example_client (take 4 example_calls)))"
    by blast
  with init_example r show ?thesis by simp
qed

section \<open>Properties of the request builder\<close>

text \<open>A request that cannot be built never reaches the backend, and leaves the client as it was.\<close>

lemma create_fails_early:
  "process_create_args e self messages tools tool_choice json_output extra = Inl err \<Longrightarrow>
     create e backend self messages tools tool_choice json_output extra = (Inl err, self)"
  by (simp add: create_def)

lemma create_stream_fails_early:
  "process_create_args e self messages tools tool_choice json_output extra = Inl err \<Longrightarrow>
     create_stream e backend self messages tools tool_choice json_output extra
       = (\<lparr>partials = [], final = Inl err\<rparr>, self)"
  by (simp add: create_stream_def)


lemma convert_tools_Nil: "convert_tools [] = Inr []"
  by (simp add: convert_tools_def)

lemma choose_tools_required_Nil: "choose_tools (Choice ''required'') [] = Inl NoToolsProvided"
  by (simp add: choose_tools_def convert_tools_Nil)

lemma choose_tools_auto_Nil: "choose_tools (Choice ''auto'') [] = Inr []"
  by (simp add: choose_tools_def convert_tools_Nil)

text \<open>
  With \<^verbatim>\<open>tool_choice="required"\<close> and no tools the request builder fails on every input: with
  the error of an earlier check when one fails, and otherwise for the missing tools.
\<close>

lemma required_always_fails:
  "process_create_args e self messages [] (Choice ''required'') json_output extra =
     (case process_create_args e self messages [] (Choice ''auto'') json_output extra of
        Inl err \<Rightarrow> Inl err | Inr _ \<Rightarrow> Inl NoToolsProvided)"
  by (simp add: process_create_args_def Let_def choose_tools_required_Nil choose_tools_auto_Nil
        split: sum.splits prod.splits)

text \<open>
  Claim C8. When the checks that come before the tools pass (the response format, vision,
  JSON output, the translation of the messages), a call with \<^verbatim>\<open>tool_choice="required"\<close> and
  an empty tool list fails with the no-tools-provided error, in \<^verbatim>\<open>create\<close> and in
  \<^verbatim>\<open>create_stream\<close> whatever the backend is, and leaves the client unchanged; with
  \<^verbatim>\<open>tool_choice="auto"\<close> the same request is built, with no tools.
\<close>

theorem required_without_tools:
  assumes "resolve_response_format (self_model_info self) json_output
             (create_args_from_config e (dict_update (self_create_args self) extra))
           = Inr (v, create_args')"
      and "mi_vision (self_model_info self) \<or> \<not> list_ex has_image messages"
      and "mi_json_output (self_model_info self) \<or> json_output \<noteq> PBool True"
      and "map_result (to_ollama_type e) messages = Inr ms"
  shows "process_create_args e self messages [] (Choice ''required'') json_output extra
           = Inl NoToolsProvided
       \<and> create e backend self messages [] (Choice ''required'') json_output extra
           = (Inl NoToolsProvided, self)
       \<and> create_stream e sbackend self messages [] (Choice ''required'') json_output extra
           = (\<lparr>partials = [], final = Inl NoToolsProvided\<rparr>, self)
       \<and> process_create_args e self messages [] (Choice ''auto'') json_output extra
           = Inr \<lparr>cp_messages = concat ms, cp_tools = [], cp_format = v,
                  cp_create_args = create_args'\<rparr>"
proof -
  have r: "process_create_args e self messages [] (Choice ''required'') json_output extra
           = Inl NoToolsProvided"
    using assms
    by (auto simp: process_create_args_def Let_def choose_tools_required_Nil)
  have a: "process_create_args e self messages [] (Choice ''auto'') json_output extra
           = Inr \<lparr>cp_messages = concat ms, cp_tools = [], cp_format = v,
                  cp_create_args = create_args'\<rparr>"
    using assms
    by (auto simp: process_create_args_def Let_def choose_tools_auto_Nil)
  from r a create_fails_early[OF r] create_stream_fails_early[OF r] show ?thesis by simp
qed

lemma example_resolve:
  "resolve_response_format (self_model_info example_client) PNone
     (create_args_from_config example_env (dict_update (self_create_args example_client) []))
   = Inr (PNone, [(''model'', PStr ''llama3'')])"
  by code_simp

theorem required_without_tools_witness:
  "create example_env (constant_chat hello_chunk) example_client [] [] (Choice ''required'')
     PNone [] = (Inl NoToolsProvided, example_client)
   \<and> create example_env (constant_chat hello_chunk) example_client [] [] (Choice ''auto'')
       PNone []
     = (Inr \<lparr>finish_reason = ''stop'', result_content = Text ''Hello'',
             usage = \<lparr>prompt_tokens = 10, completion_tokens = 5\<rparr>, cached = False,
             thought = None\<rparr>,
        example_client\<lparr>self_total_usage := \<lparr>prompt_tokens = 10, completion_tokens = 5\<rparr>,
                       self_actual_usage := \<lparr>prompt_tokens = 10, completion_tokens = 5\<rparr>\<rparr>)"
proof -
  have v: "mi_vision (self_model_info example_client) \<or> \<not> list_ex has_image []"
    by simp
  have j: "mi_json_output (self_model_info example_client) \<or> PNone \<noteq> PBool True"
    by simp
  have m: "map_result (to_ollama_type example_env) [] = Inr []"
    by simp
  have a: "create example_env (constant_chat hello_chunk) example_client [] [] (Choice ''auto'')
       PNone []
     = (Inr \<lparr>finish_reason = ''stop'', result_content = Text ''Hello'',
             usage = \<lparr>prompt_tokens = 10, completion_tokens = 5\<rparr>, cached = False,
             thought = None\<rparr>,
        example_client\<lparr>self_total_usage := \<lparr>prompt_tokens = 10, completion_tokens = 5\<rparr>,
                       self_actual_usage := \<lparr>prompt_tokens = 10, completion_tokens = 5\<rparr>\<rparr>)"
    by code_simp
  from required_without_tools[OF example_resolve v j m, of "constant_chat hello_chunk"] a
  show ?thesis by simp
qed





end
